theory Spec2Isabelle
  imports Main "HOL-Library.Word" "HOL-Library.Char_ord" "HOL-Library.List_Lexorder"
    "HOL-Library.Product_Lexorder" "HOL-Library.Multiset"
begin

section \<open>Machine integers, positions and errors\<close>

text \<open>
  Go's \<open>int\<close> and \<open>token.Pos\<close> are 64-bit signed integers on the platforms the tool
  runs on. They are 64-bit words here: \<open>+\<close> and \<open>-\<close> wrap, and the comparisons of the
  source are the signed ones (\<open>\<le>s\<close>, \<open><s\<close>).
\<close>

type_synonym go_int = "64 word"

definition NoPos :: go_int where
  "NoPos = 0"

text \<open>
  The values of Go's \<open>error\<close> that the program returns, one constructor for each
  message or cause, and the two run-time panics the code can reach (a nil dereference,
  \<open>make\<close> with a negative length).
\<close>

datatype error =
    ErrReadingFile string
  | ErrParsingFile string
  | ErrInvalidPosition
  | ErrNoCallExpression
  | ErrInvalidCallPositions
  | ErrImport string
  | ErrEOF
  | ErrWrite
  | ErrInvalidHeaderLine string
  | ErrMissingContentLength
  | ErrInvalidContentLength string
  | ErrJSON
  | PanicNilDereference
  | PanicMakeSliceLen

section \<open>Syntax trees\<close>

text \<open>
  The type expressions \<open>exprToString\<close> distinguishes. \<open>OtherExpr t\<close> is any other
  expression, \<open>t\<close> being the name of its Go type as \<open>%T\<close> prints it.
\<close>

datatype expr =
    Ident string
  | StarExpr expr
  | SelectorExpr expr string
  | IndexExpr expr expr
  | IndexListExpr expr "expr list"
  | ArrayType expr
  | MapType expr expr
  | FuncType
  | InterfaceType
  | StructType
  | OtherExpr string

text \<open>A field of a receiver list: its names and its type.\<close>

type_synonym field = "string list \<times> expr"

text \<open>
  The traversals look at three kinds of node only. A function declaration carries what
  the code reads from it: \<open>Name.Name\<close>, \<open>Name.NamePos\<close> and \<open>Recv\<close> (\<open>None\<close> is
  the nil field list, otherwise \<open>Recv.List\<close>).
\<close>

datatype kind =
    FuncDecl string go_int "field list option"
  | FuncLit
  | CallExpr
  | OtherNode

text \<open>
  A node: its kind, \<open>Pos()\<close>, \<open>End()\<close> and its children in the order in which
  \<open>ast.Walk\<close> visits them.
\<close>

datatype node = Node kind go_int go_int "node list"

fun node_kind :: "node \<Rightarrow> kind" where
  "node_kind (Node k p e cs) = k"

fun node_Pos :: "node \<Rightarrow> go_int" where
  "node_Pos (Node k p e cs) = p"

fun node_End :: "node \<Rightarrow> go_int" where
  "node_End (Node k p e cs) = e"


text \<open>
  \<open>ast.File\<close>: \<open>Pos()\<close> is the position of the \<open>package\<close> keyword, \<open>File_Head\<close>
  holds the children walked before the declarations (the doc comment and the package
  name), \<open>File_Decls\<close> the top-level declarations.
\<close>

record ast_File =
  File_Package :: go_int
  File_End :: go_int
  File_Head :: "node list"
  File_Decls :: "node list"

definition File_node :: "ast_File \<Rightarrow> node" where
  "File_node f = Node OtherNode (File_Package f) (File_End f) (File_Head f @ File_Decls f)"

text \<open>
  \<open>ast.Inspect\<close>: the callback is called on a node, and on its children in order only
  if it returned true. The variables the closures of the source assign are the state
  \<open>'s\<close>. (The final call of the callback on nil changes nothing in either closure.)
\<close>

fun Inspect :: "(node \<Rightarrow> 's \<Rightarrow> bool \<times> 's) \<Rightarrow> node \<Rightarrow> 's \<Rightarrow> 's"
  and Inspect_list :: "(node \<Rightarrow> 's \<Rightarrow> bool \<times> 's) \<Rightarrow> node list \<Rightarrow> 's \<Rightarrow> 's" where
  "Inspect f (Node k p e cs) s =
     (case f (Node k p e cs) s of
        (True, s') \<Rightarrow> Inspect_list f cs s'
      | (False, s') \<Rightarrow> s')"
| "Inspect_list f [] s = s"
| "Inspect_list f (c # cs) s = Inspect_list f cs (Inspect f c s)"


section \<open>The file set\<close>

text \<open>
  \<open>token.File\<close>: base, size and the table of line offsets. \<open>token.FileSet\<close>: the files
  added so far and the base of the next one.
\<close>

record token_File =
  tf_name :: string
  tf_base :: go_int
  tf_size :: go_int
  tf_lines :: "go_int list"

definition LineCount :: "token_File \<Rightarrow> int" where
  "LineCount f = int (length (tf_lines f))"

text \<open>\<open>LineStart\<close> panics unless \<open>1 \<le> line \<le> LineCount\<close>; its one caller checks that first.\<close>

definition LineStart :: "token_File \<Rightarrow> go_int \<Rightarrow> go_int" where
  "LineStart f line = tf_base f + tf_lines f ! nat (sint line - 1)"

text \<open>\<open>FileSet.File(p)\<close>: nil for \<open>NoPos\<close>, otherwise the file whose range holds \<open>p\<close>.\<close>

definition fset_File :: "token_File list \<Rightarrow> go_int \<Rightarrow> token_File option" where
  "fset_File files p =
     (if p = NoPos then None
      else find (\<lambda>f. tf_base f \<le>s p \<and> p \<le>s tf_base f + tf_size f) files)"

text \<open>\<open>FileSet.Position(p).Offset\<close>: 0 when no file holds \<open>p\<close>.\<close>

definition Position_Offset :: "token_File list \<Rightarrow> go_int \<Rightarrow> go_int" where
  "Position_Offset files p =
     (case fset_File files p of None \<Rightarrow> 0 | Some f \<Rightarrow> p - tf_base f)"

text \<open>
  \<open>FileSet.Position(p)\<close>: line and column of \<open>p\<close>, both 1-based, from the line table
  (\<open>//line\<close> directives are not modelled); the zero position when no file holds \<open>p\<close>.
\<close>

definition Position_Line :: "token_File list \<Rightarrow> go_int \<Rightarrow> go_int" where
  "Position_Line files p =
     (case fset_File files p of
        None \<Rightarrow> 0
      | Some f \<Rightarrow> of_nat (length (filter (\<lambda>l. l \<le>s p - tf_base f) (tf_lines f))))"

definition Position_Column :: "token_File list \<Rightarrow> go_int \<Rightarrow> go_int" where
  "Position_Column files p =
     (case fset_File files p of
        None \<Rightarrow> 0
      | Some f \<Rightarrow>
          (case rev (filter (\<lambda>l. l \<le>s p - tf_base f) (tf_lines f)) of
             [] \<Rightarrow> 0
           | l # _ \<Rightarrow> p - tf_base f - l + 1))"

definition Position_Filename :: "token_File list \<Rightarrow> go_int \<Rightarrow> string" where
  "Position_Filename files p =
     (case fset_File files p of None \<Rightarrow> [] | Some f \<Rightarrow> tf_name f)"

section \<open>What the program reads from outside\<close>

text \<open>
  The file system, the Go parser, the package resolver, the glob library, the pretty
  printer and the working directory are not part of the repository, and what a request
  for references returns is decided by the language server: they are the fields of a
  record the functions take as a parameter.
  \<^item> \<open>os_ReadFile path\<close>: the content, or \<open>None\<close> for any error;
  \<^item> \<open>parser_ParseFile name src base\<close>: the line table the scanner recorded and either
    an error message or the file's tree, its positions starting at \<open>base\<close>;
  \<^item> \<open>build_Import pkg\<close>: an error message, or \<open>pkg.Dir\<close> and \<open>pkg.GoFiles\<close>;
  \<^item> \<open>glob_Glob pattern subject\<close>;
  \<^item> \<open>ast_IsExported name\<close>;
  \<^item> \<open>format_source\<close>: \<open>ast.Format\<close>, which parses and prints an expression;
  \<^item> \<open>filepath_Abs_dot\<close>: \<open>filepath.Abs(".")\<close>, the empty string on error;
  \<^item> \<open>pls_FindReferences n file line col\<close>: what the call of
    \<open>GoplsClient.FindReferences\<close> returns when \<open>n\<close> calls have been made before it,
    an error or the matches, whatever they are.
\<close>

record gopls_Match =
  gm_URI :: string
  gm_Filename :: string
  gm_StartLine :: go_int
  gm_StartCharacter :: go_int
  gm_EndLine :: go_int
  gm_EndCharacter :: go_int

record world =
  os_ReadFile :: "string \<Rightarrow> string option"
  parser_ParseFile :: "string \<Rightarrow> string \<Rightarrow> go_int \<Rightarrow> go_int list \<times> (string + ast_File)"
  build_Import :: "string \<Rightarrow> string + (string \<times> string list)"
  glob_Glob :: "string \<Rightarrow> string \<Rightarrow> bool"
  ast_IsExported :: "string \<Rightarrow> bool"
  format_source :: "string \<Rightarrow> string"
  filepath_Abs_dot :: string
  pls_FindReferences :: "nat \<Rightarrow> string \<Rightarrow> go_int \<Rightarrow> go_int \<Rightarrow> error + gopls_Match list"

section \<open>ASTProcessor\<close>

record ASTProcessor =
  fset_files :: "token_File list"
  fset_base :: go_int
  fileMap :: "string \<rightharpoonup> ast_File"

definition NewASTProcessor :: ASTProcessor where
  "NewASTProcessor = \<lparr>fset_files = [], fset_base = 1, fileMap = Map.empty\<rparr>"

text \<open>
  \<open>ParseFile\<close>. The parser adds the file to the file set before it parses, so the file
  set grows also when parsing fails; the cache is written only on success.
\<close>

definition ParseFile :: "world \<Rightarrow> ASTProcessor \<Rightarrow> string \<Rightarrow> error option \<times> ASTProcessor" where
  "ParseFile w a filePath =
     (case fileMap a filePath of
        Some cached \<Rightarrow> (None, a)
      | None \<Rightarrow>
          (case os_ReadFile w filePath of
             None \<Rightarrow> (Some (ErrReadingFile filePath), a)
           | Some src \<Rightarrow>
               (let (lns, r) = parser_ParseFile w filePath src (fset_base a);
                    tf = \<lparr>tf_name = filePath, tf_base = fset_base a,
                          tf_size = of_nat (length src), tf_lines = lns\<rparr>;
                    a1 = a\<lparr>fset_files := fset_files a @ [tf],
                           fset_base := fset_base a + of_nat (length src) + 1\<rparr>
                in case r of
                     Inl msg \<Rightarrow> (Some (ErrParsingFile filePath), a1)
                   | Inr file \<Rightarrow> (None, a1\<lparr>fileMap := (fileMap a1)(filePath \<mapsto> file)\<rparr>))))"

text \<open>
  \<open>getPosition\<close>. Reading \<open>Pos()\<close> of a path that is not in the cache dereferences nil;
  both callers have parsed the file before.
\<close>

definition getPosition :: "ASTProcessor \<Rightarrow> string \<Rightarrow> go_int \<Rightarrow> go_int \<Rightarrow> error + go_int" where
  "getPosition a filePath line character =
     (case fileMap a filePath of
        None \<Rightarrow> Inl PanicNilDereference
      | Some astf \<Rightarrow>
          (case fset_File (fset_files a) (File_Package astf) of
             None \<Rightarrow> Inr NoPos
           | Some file \<Rightarrow>
               if line <s 1 \<or> LineCount file < sint line then Inr NoPos
               else Inr (LineStart file line + (character - 1))))"

fun strings_Join :: "string list \<Rightarrow> string \<Rightarrow> string" where
  "strings_Join [] sep = []"
| "strings_Join [x] sep = x"
| "strings_Join (x # y # ys) sep = x @ sep @ strings_Join (y # ys) sep"

fun exprToString :: "expr \<Rightarrow> string" where
  "exprToString (Ident n) = n"
| "exprToString (StarExpr x) = ''*'' @ exprToString x"
| "exprToString (SelectorExpr x sel) = exprToString x @ ''.'' @ sel"
| "exprToString (IndexExpr x i) = exprToString x @ ''['' @ exprToString i @ '']''"
| "exprToString (IndexListExpr x ixs) =
     exprToString x @ ''['' @ strings_Join (map exprToString ixs) '', '' @ '']''"
| "exprToString (ArrayType elt) = ''[]'' @ exprToString elt"
| "exprToString (MapType k v) = ''map['' @ exprToString k @ '']'' @ exprToString v"
| "exprToString FuncType = ''func''"
| "exprToString InterfaceType = ''interface''"
| "exprToString StructType = ''struct''"
| "exprToString (OtherExpr t) = t"

subsection \<open>GetEnclosingFunctionName\<close>

text \<open>The named results and \<open>found\<close>, which the closure assigns.\<close>

record enclosing =
  found :: bool
  functionName :: string
  receiverType :: string
  receiverName :: string

definition enclosing_init :: enclosing where
  "enclosing_init = \<lparr>found = False, functionName = [], receiverType = [], receiverName = []\<rparr>"

definition span_has :: "node \<Rightarrow> go_int \<Rightarrow> bool" where
  "span_has n position = (node_Pos n \<le>s position \<and> position \<le>s node_End n)"

fun enclosing_visit :: "go_int \<Rightarrow> node \<Rightarrow> enclosing \<Rightarrow> bool \<times> enclosing" where
  "enclosing_visit position n s =
     (if found s then (False, s)
      else if span_has n position then
        (case node_kind n of
           FuncDecl name namePos recv \<Rightarrow>
             (let s1 = s\<lparr>functionName := name\<rparr>;
                  s2 = (case recv of
                          Some (fld # rest) \<Rightarrow>
                            s1\<lparr>receiverType := exprToString (snd fld),
                               receiverName := (case fst fld of nm # nms \<Rightarrow> nm | [] \<Rightarrow> [])\<rparr>
                        | _ \<Rightarrow> s1)
              in (False, s2\<lparr>found := True\<rparr>))
         | FuncLit \<Rightarrow>
             (False, s\<lparr>functionName := ''anonymous function'', receiverType := [], found := True\<rparr>)
         | _ \<Rightarrow> (True, s))
      else (True, s))"

definition GetEnclosingFunctionName ::
  "world \<Rightarrow> ASTProcessor \<Rightarrow> string \<Rightarrow> go_int \<Rightarrow> go_int \<Rightarrow>
     (error + string \<times> string \<times> string) \<times> ASTProcessor" where
  "GetEnclosingFunctionName w a filePath line character =
     (case ParseFile w a filePath of
        (Some err, a1) \<Rightarrow> (Inl err, a1)
      | (None, a1) \<Rightarrow>
          (case fileMap a1 filePath of
             None \<Rightarrow> (Inl PanicNilDereference, a1)
           | Some file \<Rightarrow>
               (case getPosition a1 filePath line character of
                  Inl err \<Rightarrow> (Inl err, a1)
                | Inr position \<Rightarrow>
                    if position = NoPos then (Inl ErrInvalidPosition, a1)
                    else
                      (let s = Inspect (enclosing_visit position) (File_node file) enclosing_init;
                           s' = (if \<not> found s
                                 then s\<lparr>functionName := ''global scope'', receiverType := []\<rparr>
                                 else s)
                       in (Inr (functionName s', receiverType s', receiverName s'), a1)))))"

subsection \<open>ExtractFullCall\<close>

fun call_visit :: "go_int \<Rightarrow> node \<Rightarrow> node option \<Rightarrow> bool \<times> node option" where
  "call_visit position n targetCallExpr =
     (if node_kind n = CallExpr \<and> span_has n position then (True, Some n)
      else (True, targetCallExpr))"

definition ExtractFullCall ::
  "world \<Rightarrow> ASTProcessor \<Rightarrow> string \<Rightarrow> go_int \<Rightarrow> go_int \<Rightarrow> (error + string) \<times> ASTProcessor" where
  "ExtractFullCall w a filePath line character =
     (case ParseFile w a filePath of
        (Some err, a1) \<Rightarrow> (Inl err, a1)
      | (None, a1) \<Rightarrow>
          (case fileMap a1 filePath of
             None \<Rightarrow> (Inl PanicNilDereference, a1)
           | Some file \<Rightarrow>
               (case os_ReadFile w filePath of
                  None \<Rightarrow> (Inl (ErrReadingFile filePath), a1)
                | Some src \<Rightarrow>
                    (case getPosition a1 filePath line character of
                       Inl err \<Rightarrow> (Inl err, a1)
                     | Inr position \<Rightarrow>
                         if position = NoPos then (Inl ErrInvalidPosition, a1)
                         else
                           (case Inspect (call_visit position) (File_node file) None of
                              None \<Rightarrow> (Inl ErrNoCallExpression, a1)
                            | Some ce \<Rightarrow>
                                (let startOffset = Position_Offset (fset_files a1) (node_Pos ce);
                                     endOffset = Position_Offset (fset_files a1) (node_End ce)
                                 in if startOffset <s 0 \<or> int (length src) < sint endOffset
                                       \<or> endOffset \<le>s startOffset
                                    then (Inl ErrInvalidCallPositions, a1)
                                    else (Inr (take (nat (sint endOffset) - nat (sint startOffset))
                                                 (drop (nat (sint startOffset)) src)), a1)))))))"

subsection \<open>FindFuncDefinitions\<close>

record Match =
  Pkg :: string
  RecvType :: string
  RecvName :: string
  FuncName :: string
  Filename :: string
  OffsetLine :: go_int
  OffsetCol :: go_int

text \<open>\<open>extractRecvType\<close> reads \<open>decl.Recv\<close>: anything but a list of one field gives two empty strings.\<close>

definition extractRecvType :: "field list option \<Rightarrow> string \<times> string" where
  "extractRecvType recv =
     (case recv of
        Some [(names, ty)] \<Rightarrow> (exprToString ty, (case names of nm # nms \<Rightarrow> nm | [] \<Rightarrow> []))
      | _ \<Rightarrow> ([], []))"

definition strings_HasPrefix :: "string \<Rightarrow> string \<Rightarrow> bool" where
  "strings_HasPrefix s pre = (take (length pre) s = pre)"

definition strings_TrimPrefix :: "string \<Rightarrow> string \<Rightarrow> string" where
  "strings_TrimPrefix s pre = (if strings_HasPrefix s pre then drop (length pre) s else s)"

text \<open>\<open>strings.Cut\<close> with a separator of one byte: before, after, found.\<close>

fun strings_Cut :: "string \<Rightarrow> char \<Rightarrow> string \<times> string \<times> bool" where
  "strings_Cut [] sep = ([], [], False)"
| "strings_Cut (c # cs) sep =
     (if c = sep then ([], cs, True)
      else (case strings_Cut cs sep of (before, after, fnd) \<Rightarrow> (c # before, after, fnd)))"

text \<open>The loop of \<open>isFuncMatch\<close> over the patterns; \<open>continue\<close> is the recursive call.\<close>

fun isFuncMatch_loop :: "world \<Rightarrow> string \<Rightarrow> string \<Rightarrow> string list \<Rightarrow> bool" where
  "isFuncMatch_loop w recvType funcName [] = False"
| "isFuncMatch_loop w recvType funcName (pattern # rest) =
     (case strings_Cut pattern (CHR ''.'') of
        (structName, methodName, True) \<Rightarrow>
          if \<not> glob_Glob w structName recvType then isFuncMatch_loop w recvType funcName rest
          else if glob_Glob w methodName funcName then True
          else isFuncMatch_loop w recvType funcName rest
      | (before, after, False) \<Rightarrow>
          if glob_Glob w pattern funcName then True
          else isFuncMatch_loop w recvType funcName rest)"

definition isFuncMatch :: "world \<Rightarrow> string \<Rightarrow> field list option \<Rightarrow> string list \<Rightarrow> bool" where
  "isFuncMatch w funcName recv funcPatterns =
     isFuncMatch_loop w (strings_TrimPrefix (fst (extractRecvType recv)) ''*'') funcName funcPatterns"

text \<open>\<open>filepath.Join\<close> of \<open>pkg.Dir\<close>, a cleaned absolute directory, and a file name.\<close>

definition filepath_Join :: "string \<Rightarrow> string \<Rightarrow> string" where
  "filepath_Join dir file = dir @ ''/'' @ file"

text \<open>The loop over \<open>node.Decls\<close>, appending to \<open>matches\<close>.\<close>

fun scan_Decls ::
  "world \<Rightarrow> token_File list \<Rightarrow> string \<Rightarrow> string list \<Rightarrow> node list \<Rightarrow> Match list \<Rightarrow> Match list" where
  "scan_Decls w fs pkgPath funcPattern [] matches = matches"
| "scan_Decls w fs pkgPath funcPattern (decl # decls) matches =
     (case node_kind decl of
        FuncDecl funcName namePos recv \<Rightarrow>
          if \<not> ast_IsExported w funcName then scan_Decls w fs pkgPath funcPattern decls matches
          else if \<not> isFuncMatch w funcName recv funcPattern
            then scan_Decls w fs pkgPath funcPattern decls matches
          else scan_Decls w fs pkgPath funcPattern decls
                 (matches @
                  [\<lparr>Pkg = pkgPath,
                    RecvType = fst (extractRecvType recv),
                    RecvName = snd (extractRecvType recv),
                    FuncName = funcName,
                    Filename = Position_Filename fs namePos,
                    OffsetLine = Position_Line fs namePos,
                    OffsetCol = Position_Column fs namePos\<rparr>])
      | _ \<Rightarrow> scan_Decls w fs pkgPath funcPattern decls matches)"

text \<open>The loop over \<open>pkg.GoFiles\<close>; a file that does not parse ends the search.\<close>

fun scan_GoFiles ::
  "world \<Rightarrow> ASTProcessor \<Rightarrow> string \<Rightarrow> string \<Rightarrow> string list \<Rightarrow> string list \<Rightarrow> Match list \<Rightarrow>
     (error + Match list) \<times> ASTProcessor" where
  "scan_GoFiles w a pkgPath dir funcPattern [] matches = (Inr matches, a)"
| "scan_GoFiles w a pkgPath dir funcPattern (file # files) matches =
     (case ParseFile w a (filepath_Join dir file) of
        (Some err, a1) \<Rightarrow> (Inl err, a1)
      | (None, a1) \<Rightarrow>
          (case fileMap a1 (filepath_Join dir file) of
             None \<Rightarrow> (Inl PanicNilDereference, a1)
           | Some astf \<Rightarrow>
               scan_GoFiles w a1 pkgPath dir funcPattern files
                 (scan_Decls w (fset_files a1) pkgPath funcPattern (File_Decls astf) matches)))"

definition FindFuncDefinitions ::
  "world \<Rightarrow> ASTProcessor \<Rightarrow> string \<Rightarrow> string list \<Rightarrow> (error + Match list) \<times> ASTProcessor" where
  "FindFuncDefinitions w a pkgPath funcPattern =
     (case build_Import w pkgPath of
        Inl msg \<Rightarrow> (Inl (ErrImport msg), a)
      | Inr (dir, goFiles) \<Rightarrow> scan_GoFiles w a pkgPath dir funcPattern goFiles [])"

section \<open>Matcher\<close>

record matchEntry =
  me_Filename :: string
  me_Line :: go_int
  EncRecvType :: string
  EncRecvName :: string
  EncFuncName :: string
  OrgSource :: string
  PrettySource :: string

text \<open>
  The matcher's state: the entries found so far and, for the client it owns, the number of
  \<open>FindReferences\<close> requests made (which selects the answer of the next one).
\<close>

record Matcher =
  refs :: "matchEntry list"
  pls_calls :: nat

text \<open>\<open>strings.Compare\<close>: bytewise lexicographic comparison.\<close>

fun strings_Compare :: "string \<Rightarrow> string \<Rightarrow> int" where
  "strings_Compare [] [] = 0"
| "strings_Compare [] (y # ys) = -1"
| "strings_Compare (x # xs) [] = 1"
| "strings_Compare (x # xs) (y # ys) =
     (if x < y then -1 else if y < x then 1 else strings_Compare xs ys)"

definition cmp_Compare :: "go_int \<Rightarrow> go_int \<Rightarrow> int" where
  "cmp_Compare x y = (if x <s y then -1 else if y <s x then 1 else 0)"

text \<open>The comparison function \<open>sort\<close> passes to \<open>slices.SortStableFunc\<close>.\<close>

definition sort_cmp :: "matchEntry \<Rightarrow> matchEntry \<Rightarrow> int" where
  "sort_cmp a b =
     (let v = strings_Compare (me_Filename a) (me_Filename b)
      in if v \<noteq> 0 then v else cmp_Compare (me_Line a) (me_Line b))"

text \<open>
  \<open>slices.SortStableFunc\<close> as the insertion sort the library runs on short slices:
  each element in turn moves left past the elements that compare greater. The sorted
  prefix is held in reverse, so that the element moves from the head of the list. (On
  long slices the library merges sorted blocks; a stable sort has one result, and this
  one is shown below to be that of \<open>sort_key\<close>.)
\<close>

fun insert_back :: "('a \<Rightarrow> 'a \<Rightarrow> int) \<Rightarrow> 'a \<Rightarrow> 'a list \<Rightarrow> 'a list" where
  "insert_back cmp x [] = [x]"
| "insert_back cmp x (y # r) = (if cmp x y < 0 then y # insert_back cmp x r else x # y # r)"

definition SortStableFunc :: "('a \<Rightarrow> 'a \<Rightarrow> int) \<Rightarrow> 'a list \<Rightarrow> 'a list" where
  "SortStableFunc cmp xs = rev (foldl (\<lambda>r x. insert_back cmp x r) [] xs)"

text \<open>The method \<open>sort\<close> of \<open>Matcher\<close>.\<close>

definition Matcher_sort :: "Matcher \<Rightarrow> Matcher" where
  "Matcher_sort m = m\<lparr>refs := SortStableFunc sort_cmp (refs m)\<rparr>"

subsection \<open>FindFuncReferences\<close>

text \<open>The loop over the references of one definition.\<close>

fun refs_loop ::
  "world \<Rightarrow> string \<Rightarrow> ASTProcessor \<Rightarrow> gopls_Match list \<Rightarrow> matchEntry list \<Rightarrow>
     error option \<times> ASTProcessor \<times> matchEntry list" where
  "refs_loop w pwd ap [] rs = (None, ap, rs)"
| "refs_loop w pwd ap (match # matches) rs =
     (if \<not> strings_HasPrefix (gm_Filename match) pwd then refs_loop w pwd ap matches rs
      else
        (case GetEnclosingFunctionName w ap (gm_Filename match) (gm_StartLine match)
                (gm_StartCharacter match) of
           (Inl err, ap1) \<Rightarrow> (Some err, ap1, rs)
         | (Inr (fname, rtype, rname), ap1) \<Rightarrow>
             (case ExtractFullCall w ap1 (gm_Filename match) (gm_StartLine match)
                     (gm_StartCharacter match) of
                (Inl err, ap2) \<Rightarrow> (Some err, ap2, rs)
              | (Inr src, ap2) \<Rightarrow>
                  refs_loop w pwd ap2 matches
                    (rs @ [\<lparr>me_Filename = gm_Filename match,
                             me_Line = gm_StartLine match,
                             EncRecvType = rtype,
                             EncRecvName = rname,
                             EncFuncName = fname,
                             OrgSource = src,
                             PrettySource = format_source w src\<rparr>]))))"

text \<open>The loop over the definitions.\<close>

fun defs_loop ::
  "world \<Rightarrow> string \<Rightarrow> ASTProcessor \<Rightarrow> Match list \<Rightarrow> Matcher \<Rightarrow> error option \<times> Matcher" where
  "defs_loop w pwd ap [] m = (None, m)"
| "defs_loop w pwd ap (def # defs) m =
     (case pls_FindReferences w (pls_calls m) (Filename def) (OffsetLine def) (OffsetCol def) of
        Inl err \<Rightarrow> (Some err, m\<lparr>pls_calls := Suc (pls_calls m)\<rparr>)
      | Inr matches \<Rightarrow>
          (case refs_loop w pwd ap matches (refs m) of
             (Some err, ap1, rs) \<Rightarrow> (Some err, m\<lparr>refs := rs, pls_calls := Suc (pls_calls m)\<rparr>)
           | (None, ap1, rs) \<Rightarrow>
               defs_loop w pwd ap1 defs (m\<lparr>refs := rs, pls_calls := Suc (pls_calls m)\<rparr>)))"

definition FindFuncReferences ::
  "world \<Rightarrow> Matcher \<Rightarrow> string \<Rightarrow> string list \<Rightarrow> error option \<times> Matcher" where
  "FindFuncReferences w m pkgName patterns =
     (let pwd = filepath_Abs_dot w;
          ap = NewASTProcessor
      in case FindFuncDefinitions w ap pkgName patterns of
           (Inl err, ap1) \<Rightarrow> (Some err, m)
         | (Inr defs, ap1) \<Rightarrow> defs_loop w pwd ap1 defs m)"

section \<open>GoplsClient\<close>

text \<open>
  A decoded message is the list of the fields of its JSON object. The JSON encoder and
  decoder are library code and come as parameters.
\<close>

datatype json =
    JNull
  | JBool bool
  | JNumber int
  | JString string
  | JArray "json list"
  | JObject "(string \<times> json) list"

record wire =
  json_Marshal :: "json \<Rightarrow> string option"
  json_Unmarshal :: "string \<Rightarrow> (string \<times> json) list option"

text \<open>
  The client: the bytes of the server's output not yet read, the bytes written to its
  input, whether writing to the pipe fails, and the sequence counter.
\<close>

record GoplsClient =
  reader :: string
  writer :: string
  stdin_broken :: bool
  seq :: go_int

text \<open>\<open>strings.TrimSpace\<close>, on the ASCII white space.\<close>

definition is_space :: "char \<Rightarrow> bool" where
  "is_space c =
     (c = CHR '' '' \<or> c = CHR 0x09 \<or> c = CHR 0x0A \<or> c = CHR 0x0B \<or> c = CHR 0x0C \<or> c = CHR 0x0D)"

definition strings_TrimSpace :: "string \<Rightarrow> string" where
  "strings_TrimSpace s = rev (dropWhile is_space (rev (dropWhile is_space s)))"

definition is_digit :: "char \<Rightarrow> bool" where
  "is_digit c = (CHR ''0'' \<le> c \<and> c \<le> CHR ''9'')"

definition digits_value :: "string \<Rightarrow> nat" where
  "digits_value ds = foldl (\<lambda>v c. 10 * v + (of_char c - 48)) 0 ds"

text \<open>\<open>strconv.Atoi\<close>: an optional sign and decimal digits, within the range of \<open>int\<close>.\<close>

definition strconv_Atoi :: "string \<Rightarrow> int option" where
  "strconv_Atoi s =
     (let neg = (case s of c # cs \<Rightarrow> c = CHR ''-'' | [] \<Rightarrow> False);
          ds = (case s of c # cs \<Rightarrow> if c = CHR ''-'' \<or> c = CHR ''+'' then cs else s | [] \<Rightarrow> [])
      in if ds = [] \<or> \<not> list_all is_digit ds then None
         else (let v = (if neg then - int (digits_value ds) else int (digits_value ds))
               in if v < - (2 ^ 63) \<or> 2 ^ 63 \<le> v then None else Some v))"

text \<open>The verb \<open>%d\<close> on a length.\<close>

fun decimal :: "nat \<Rightarrow> string" where
  "decimal n =
     (if n < 10 then [char_of (48 + n)] else decimal (n div 10) @ [char_of (48 + n mod 10)])"

text \<open>
  \<open>reader.ReadString('\n')\<close>: the line with its newline and the rest, or \<open>None\<close> when
  the input ends before a newline.
\<close>

definition ReadString :: "string \<Rightarrow> (string \<times> string) option" where
  "ReadString rd =
     (if CHR 0x0A \<in> set rd
      then Some (takeWhile (\<lambda>c. c \<noteq> CHR 0x0A) rd @ [CHR 0x0A],
                 tl (dropWhile (\<lambda>c. c \<noteq> CHR 0x0A) rd))
      else None)"

text \<open>The header loop of \<open>readMessage\<close>; it returns the headers and the input left.\<close>

function read_headers ::
  "(string \<rightharpoonup> string) \<Rightarrow> string \<Rightarrow> (error + (string \<rightharpoonup> string)) \<times> string" where
  "read_headers headers rd =
     (case ReadString rd of
        None \<Rightarrow> (Inl ErrEOF, [])
      | Some (line0, rest) \<Rightarrow>
          (let line = strings_TrimSpace line0
           in if line = [] then (Inr headers, rest)
              else (case strings_Cut line (CHR '':'') of
                      (k, v, False) \<Rightarrow> (Inl (ErrInvalidHeaderLine line), rest)
                    | (k, v, True) \<Rightarrow>
                        read_headers (headers(strings_TrimSpace k \<mapsto> strings_TrimSpace v)) rest)))"
  by pat_completeness auto
termination
proof (relation "measure (\<lambda>(headers, rd). length rd)")
  show "wf (measure (\<lambda>(headers, rd). length rd))" by simp
next
  fix headers :: "string \<rightharpoonup> string" and rd x2 line0 rest line xa k y v tf
  assume "ReadString rd = Some x2" and "(line0, rest) = x2"
  then have nl: "CHR 0x0A \<in> set rd" and rest: "rest = tl (dropWhile (\<lambda>c. c \<noteq> CHR 0x0A) rd)"
    by (auto simp: ReadString_def split: if_splits)
  from nl have "dropWhile (\<lambda>c. c \<noteq> CHR 0x0A) rd \<noteq> []"
    by (simp add: dropWhile_eq_Nil_conv)
  then have "length rest < length (dropWhile (\<lambda>c. c \<noteq> CHR 0x0A) rd)"
    using rest by (cases "dropWhile (\<lambda>c. c \<noteq> CHR 0x0A) rd") auto
  also have "\<dots> \<le> length rd" by (rule length_dropWhile_le)
  finally show "((headers(strings_TrimSpace k \<mapsto> strings_TrimSpace v), rest), headers, rd)
      \<in> measure (\<lambda>(headers, rd). length rd)"
    by simp
qed

text \<open>
  \<open>readMessage\<close>. A negative \<open>Content-Length\<close> makes \<open>make\<close> panic; a body shorter than
  announced is the error of \<open>io.ReadFull\<close>.
\<close>

definition readMessage :: "wire \<Rightarrow> GoplsClient \<Rightarrow> (error + (string \<times> json) list) \<times> GoplsClient" where
  "readMessage io c =
     (case read_headers Map.empty (reader c) of
        (Inl err, rest) \<Rightarrow> (Inl err, c\<lparr>reader := rest\<rparr>)
      | (Inr headers, rest) \<Rightarrow>
          (case headers ''Content-Length'' of
             None \<Rightarrow> (Inl ErrMissingContentLength, c\<lparr>reader := rest\<rparr>)
           | Some contentLengthStr \<Rightarrow>
               (case strconv_Atoi contentLengthStr of
                  None \<Rightarrow> (Inl (ErrInvalidContentLength contentLengthStr), c\<lparr>reader := rest\<rparr>)
                | Some contentLength \<Rightarrow>
                    if contentLength < 0 then (Inl PanicMakeSliceLen, c\<lparr>reader := rest\<rparr>)
                    else if int (length rest) < contentLength then (Inl ErrEOF, c\<lparr>reader := []\<rparr>)
                    else
                      (case json_Unmarshal io (take (nat contentLength) rest) of
                         None \<Rightarrow> (Inl ErrJSON, c\<lparr>reader := drop (nat contentLength) rest\<rparr>)
                       | Some msg \<Rightarrow> (Inr msg, c\<lparr>reader := drop (nat contentLength) rest\<rparr>)))))"

definition sendMessage :: "wire \<Rightarrow> GoplsClient \<Rightarrow> json \<Rightarrow> error option \<times> GoplsClient" where
  "sendMessage io c msg =
     (case json_Marshal io msg of
        None \<Rightarrow> (Some ErrJSON, c)
      | Some data \<Rightarrow>
          if stdin_broken c then (Some ErrWrite, c)
          else (None, c\<lparr>writer := writer c @ ''Content-Length: '' @ decimal (length data)
                                   @ [CHR 0x0D, CHR 0x0A, CHR 0x0D, CHR 0x0A] @ data\<rparr>))"

definition getSeq :: "GoplsClient \<Rightarrow> go_int \<times> GoplsClient" where
  "getSeq c = (seq c + 1, c\<lparr>seq := seq c + 1\<rparr>)"

definition pathToURI :: "string \<Rightarrow> string" where
  "pathToURI path = ''file://'' @ path"

text \<open>The three messages \<open>initialize\<close> builds.\<close>

definition initializeRequest :: "go_int \<Rightarrow> string \<Rightarrow> json" where
  "initializeRequest requestID projectRoot =
     JObject
       [(''jsonrpc'', JString ''2.0''),
        (''id'', JNumber (sint requestID)),
        (''method'', JString ''initialize''),
        (''params'', JObject
           [(''processId'', JNull),
            (''rootUri'', JString (pathToURI projectRoot)),
            (''capabilities'', JObject
               [(''textDocument'', JObject [(''references'', JObject [])])])])]"

definition initializedNotification :: json where
  "initializedNotification =
     JObject
       [(''jsonrpc'', JString ''2.0''),
        (''method'', JString ''initialized''),
        (''params'', JObject [])]"

definition didChangeConfigNotification :: json where
  "didChangeConfigNotification =
     JObject
       [(''jsonrpc'', JString ''2.0''),
        (''method'', JString ''workspace/didChangeConfiguration''),
        (''params'', JObject [(''settings'', JObject [])])]"

text \<open>
  \<open>initialize\<close>: the request, one call of \<open>readMessage\<close> whose message is dropped, then
  the two notifications.
\<close>

definition initialize :: "wire \<Rightarrow> GoplsClient \<Rightarrow> string \<Rightarrow> error option \<times> GoplsClient" where
  "initialize io c projectRoot =
     (case getSeq c of
        (requestID, c1) \<Rightarrow>
          (case sendMessage io c1 (initializeRequest requestID projectRoot) of
             (Some err, c2) \<Rightarrow> (Some err, c2)
           | (None, c2) \<Rightarrow>
               (case readMessage io c2 of
                  (Inl err, c3) \<Rightarrow> (Some err, c3)
                | (Inr resp, c3) \<Rightarrow>
                    (case sendMessage io c3 initializedNotification of
                       (Some err, c4) \<Rightarrow> (Some err, c4)
                     | (None, c4) \<Rightarrow> sendMessage io c4 didChangeConfigNotification))))"

section \<open>Notions the properties are stated with\<close>








text \<open>A match whose receiver type and name satisfy one of the patterns.\<close>

definition match_ok :: "world \<Rightarrow> string list \<Rightarrow> Match \<Rightarrow> bool" where
  "match_ok w pats m =
     isFuncMatch_loop w (strings_TrimPrefix (RecvType m) ''*'') (FuncName m) pats"

text \<open>
  The order of the result entries in the specification's words: by file path in the
  lexicographic order of the bytes, then by line.
\<close>

definition entry_le :: "matchEntry \<Rightarrow> matchEntry \<Rightarrow> bool" where
  "entry_le a b =
     (me_Filename a < me_Filename b
      \<or> (me_Filename a = me_Filename b \<and> me_Line a \<le>s me_Line b))"

definition same_key :: "string \<Rightarrow> go_int \<Rightarrow> matchEntry \<Rightarrow> bool" where
  "same_key f l e = (me_Filename e = f \<and> me_Line e = l)"

definition sort_key_of :: "matchEntry \<Rightarrow> string \<times> int" where
  "sort_key_of e = (me_Filename e, sint (me_Line e))"

definition sorted_rev :: "matchEntry list \<Rightarrow> matchEntry list" where
  "sorted_rev xs = foldl (\<lambda>r x. insert_back sort_cmp x r) [] xs"

text \<open>A path that lies in a directory: the directory and a separator begin it.\<close>

definition inside_dir :: "string \<Rightarrow> string \<Rightarrow> bool" where
  "inside_dir root path = strings_HasPrefix path (root @ ''/'')"

section \<open>An example workspace\<close>

text \<open>
  Modelled from the spec: the glob library (github.com/ryanuber/go-glob) is not part of
  the repository; the specification gives "glob semantics where \<open>*\<close> matches any run of
  characters", every other character matching itself.
\<close>

fun Glob :: "string \<Rightarrow> string \<Rightarrow> bool" where
  "Glob [] s = (s = [])"
| "Glob (c # p) s =
     (if c = CHR ''*'' then list_ex (\<lambda>k. Glob p (drop k s)) [0..<Suc (length s)]
      else (case s of [] \<Rightarrow> False | x # xs \<Rightarrow> x = c \<and> Glob p xs))"

text \<open>\<open>ast.IsExported\<close> on names that begin with an ASCII letter.\<close>

definition IsExported_ascii :: "string \<Rightarrow> bool" where
  "IsExported_ascii name =
     (case name of [] \<Rightarrow> False | c # cs \<Rightarrow> CHR ''A'' \<le> c \<and> c \<le> CHR ''Z'')"

text \<open>
  The file \<open>p.go\<close> of the workspace \<open>/w/proj\<close> (twelve lines, 161 bytes), the table of
  its line offsets and its syntax tree with the positions go/parser gives, for a file
  of base \<open>b\<close>.
\<close>

definition example_src :: string where
  "example_src =
     ''package p'' @ [CHR 0x0A, CHR 0x0A] @
     ''import '' @ [CHR 0x22] @ ''example.com/lib'' @ [CHR 0x22] @ [CHR 0x0A, CHR 0x0A] @
     ''func Foo() {'' @ [CHR 0x0A] @
     '' f := func() { lib.Bar(lib.Baz(), 1) }'' @ [CHR 0x0A] @
     '' f()'' @ [CHR 0x0A] @
     ''}'' @ [CHR 0x0A, CHR 0x0A] @
     ''func (s *Srv) Run() { lib.Bar() }'' @ [CHR 0x0A, CHR 0x0A] @
     ''var g = func() { lib.Baz() }'' @ [CHR 0x0A]"

definition example_lines :: "go_int list" where
  "example_lines = [0, 10, 11, 36, 37, 50, 89, 94, 96, 97, 131, 132]"

definition example_Baz_call :: "go_int \<Rightarrow> node" where
  "example_Baz_call b =
     Node CallExpr (b + 73) (b + 82) [
       Node OtherNode (b + 73) (b + 80) [
         Node OtherNode (b + 73) (b + 76) [],
         Node OtherNode (b + 77) (b + 80) []]]"

definition example_Bar_call :: "go_int \<Rightarrow> node" where
  "example_Bar_call b =
     Node CallExpr (b + 65) (b + 86) [
       Node OtherNode (b + 65) (b + 72) [
         Node OtherNode (b + 65) (b + 68) [],
         Node OtherNode (b + 69) (b + 72) []],
       example_Baz_call b,
       Node OtherNode (b + 84) (b + 85) []]"

definition example_FuncLit :: "go_int \<Rightarrow> node" where
  "example_FuncLit b =
     Node FuncLit (b + 56) (b + 88) [
       Node OtherNode (b + 56) (b + 62) [
         Node OtherNode (b + 60) (b + 62) []],
       Node OtherNode (b + 63) (b + 88) [
         Node OtherNode (b + 65) (b + 86) [example_Bar_call b]]]"

definition example_Foo :: "go_int \<Rightarrow> node" where
  "example_Foo b =
     Node (FuncDecl ''Foo'' (b + 42) None) (b + 37) (b + 95) [
       Node OtherNode (b + 42) (b + 45) [],
       Node OtherNode (b + 37) (b + 47) [
         Node OtherNode (b + 45) (b + 47) []],
       Node OtherNode (b + 48) (b + 95) [
         Node OtherNode (b + 51) (b + 88) [
           Node OtherNode (b + 51) (b + 52) [],
           example_FuncLit b],
         Node OtherNode (b + 90) (b + 93) [
           Node CallExpr (b + 90) (b + 93) [
             Node OtherNode (b + 90) (b + 91) []]]]]"

definition example_Run :: "go_int \<Rightarrow> node" where
  "example_Run b =
     Node (FuncDecl ''Run'' (b + 111) (Some [([''s''], StarExpr (Ident ''Srv''))]))
         (b + 97) (b + 130) [
       Node OtherNode (b + 102) (b + 110) [
         Node OtherNode (b + 103) (b + 109) [
           Node OtherNode (b + 103) (b + 104) [],
           Node OtherNode (b + 105) (b + 109) [
             Node OtherNode (b + 106) (b + 109) []]]],
       Node OtherNode (b + 111) (b + 114) [],
       Node OtherNode (b + 97) (b + 116) [
         Node OtherNode (b + 114) (b + 116) []],
       Node OtherNode (b + 117) (b + 130) [
         Node OtherNode (b + 119) (b + 128) [
           Node CallExpr (b + 119) (b + 128) [
             Node OtherNode (b + 119) (b + 126) [
               Node OtherNode (b + 119) (b + 122) [],
               Node OtherNode (b + 123) (b + 126) []]]]]]"

definition example_g :: "go_int \<Rightarrow> node" where
  "example_g b =
     Node OtherNode (b + 132) (b + 160) [
       Node OtherNode (b + 136) (b + 160) [
         Node OtherNode (b + 136) (b + 137) [],
         Node FuncLit (b + 140) (b + 160) [
           Node OtherNode (b + 140) (b + 146) [
             Node OtherNode (b + 144) (b + 146) []],
           Node OtherNode (b + 147) (b + 160) [
             Node OtherNode (b + 149) (b + 158) [
               Node CallExpr (b + 149) (b + 158) [
                 Node OtherNode (b + 149) (b + 156) [
                   Node OtherNode (b + 149) (b + 152) [],
                   Node OtherNode (b + 153) (b + 156) []]]]]]]]"

definition example_File :: "go_int \<Rightarrow> ast_File" where
  "example_File b =
     \<lparr>File_Package = b, File_End = b + 160,
      File_Head = [Node OtherNode (b + 8) (b + 9) []],
      File_Decls =
        [Node OtherNode (b + 11) (b + 35) [
           Node OtherNode (b + 18) (b + 35) [
             Node OtherNode (b + 18) (b + 35) []]],
         example_Foo b, example_Run b, example_g b]\<rparr>"

text \<open>The file \<open>lib.go\<close> of the package \<open>example.com/lib\<close> (five lines, 65 bytes).\<close>

definition example_lib_src :: string where
  "example_lib_src =
     ''package lib'' @ [CHR 0x0A, CHR 0x0A] @
     ''func Bar(xs ...int) {}'' @ [CHR 0x0A, CHR 0x0A] @
     ''func Baz() int { return 0 }'' @ [CHR 0x0A]"

definition example_lib_lines :: "go_int list" where
  "example_lib_lines = [0, 12, 13, 36, 37]"

definition example_lib_File :: "go_int \<Rightarrow> ast_File" where
  "example_lib_File b =
     \<lparr>File_Package = b, File_End = b + 64,
      File_Head = [Node OtherNode (b + 8) (b + 11) []],
      File_Decls =
        [Node (FuncDecl ''Bar'' (b + 18) None) (b + 13) (b + 35) [
           Node OtherNode (b + 18) (b + 21) [],
           Node OtherNode (b + 13) (b + 32) [
             Node OtherNode (b + 21) (b + 32) [
               Node OtherNode (b + 22) (b + 31) [
                 Node OtherNode (b + 22) (b + 24) [],
                 Node OtherNode (b + 25) (b + 31) [
                   Node OtherNode (b + 28) (b + 31) []]]]],
           Node OtherNode (b + 33) (b + 35) []],
         Node (FuncDecl ''Baz'' (b + 42) None) (b + 37) (b + 64) [
           Node OtherNode (b + 42) (b + 45) [],
           Node OtherNode (b + 37) (b + 51) [
             Node OtherNode (b + 45) (b + 47) [],
             Node OtherNode (b + 48) (b + 51) [
               Node OtherNode (b + 48) (b + 51) [
                 Node OtherNode (b + 48) (b + 51) []]]],
           Node OtherNode (b + 52) (b + 64) [
             Node OtherNode (b + 54) (b + 62) [
               Node OtherNode (b + 61) (b + 62) []]]]]\<rparr>"

text \<open>
  What the language server answers for \<open>Bar\<close> (declared at 3:6 of \<open>lib.go\<close>): the
  declaration, the two calls in the workspace, and a call in a copy of the file in the
  directory \<open>/w/proj-old\<close>, next to the workspace.
\<close>

definition example_reference :: "string \<Rightarrow> go_int \<Rightarrow> go_int \<Rightarrow> gopls_Match" where
  "example_reference path line col =
     \<lparr>gm_URI = ''file://'' @ path, gm_Filename = path,
      gm_StartLine = line, gm_StartCharacter = col,
      gm_EndLine = line, gm_EndCharacter = col + 3\<rparr>"

definition example_world :: world where
  "example_world =
     \<lparr>os_ReadFile = (\<lambda>p.
         if p = ''/w/proj/p.go'' \<or> p = ''/w/proj-old/p.go'' then Some example_src
         else if p = ''/go/mod/lib/lib.go'' then Some example_lib_src
         else if p = ''/w/proj/bad.go'' then Some ''packag p''
         else None),
      parser_ParseFile = (\<lambda>name src b.
         if src = example_src then (example_lines, Inr (example_File b))
         else if src = example_lib_src then (example_lib_lines, Inr (example_lib_File b))
         else ([0], Inl ''expected package'')),
      build_Import = (\<lambda>pkg.
         if pkg = ''example.com/lib'' then Inr (''/go/mod/lib'', [''lib.go''])
         else if pkg = ''example.com/p'' then Inr (''/w/proj'', [''p.go''])
         else Inl ''cannot find package''),
      glob_Glob = Glob,
      ast_IsExported = IsExported_ascii,
      format_source = (\<lambda>s. s),
      filepath_Abs_dot = ''/w/proj'',
      pls_FindReferences = (\<lambda>n file line col.
         if file = ''/go/mod/lib/lib.go'' \<and> line = 3 \<and> col = 6
         then Inr [example_reference ''/go/mod/lib/lib.go'' 3 6,
                   example_reference ''/w/proj/p.go'' 6 20,
                   example_reference ''/w/proj-old/p.go'' 6 20,
                   example_reference ''/w/proj/p.go'' 10 27]
         else Inr [])\<rparr>"

text \<open>The same workspace after the file \<open>/w/proj/new.go\<close> has been written.\<close>

definition example_world_later :: world where
  "example_world_later =
     example_world\<lparr>os_ReadFile := (\<lambda>p.
        if p = ''/w/proj/new.go'' then Some example_src else os_ReadFile example_world p)\<rparr>"

text \<open>
  A JSON encoder without escapes, and the two messages of the example session: a
  \<open>window/logMessage\<close> notification, which a server may send before it answers
  \<open>initialize\<close>, and the answer to the request of id 1.
\<close>

fun render :: "json \<Rightarrow> string"
  and render_list :: "json list \<Rightarrow> string"
  and render_fields :: "(string \<times> json) list \<Rightarrow> string" where
  "render JNull = ''null''"
| "render (JBool b) = (if b then ''true'' else ''false'')"
| "render (JNumber n) = (if n < 0 then ''-'' @ decimal (nat (- n)) else decimal (nat n))"
| "render (JString s) = [CHR 0x22] @ s @ [CHR 0x22]"
| "render (JArray xs) = ''['' @ render_list xs @ '']''"
| "render (JObject fs) = ''{'' @ render_fields fs @ ''}''"
| "render_list [] = []"
| "render_list [x] = render x"
| "render_list (x # y # ys) = render x @ '','' @ render_list (y # ys)"
| "render_fields [] = []"
| "render_fields [(k, v)] = [CHR 0x22] @ k @ [CHR 0x22] @ '':'' @ render v"
| "render_fields ((k, v) # f # fs) =
     [CHR 0x22] @ k @ [CHR 0x22] @ '':'' @ render v @ '','' @ render_fields (f # fs)"

definition example_logMessage :: "(string \<times> json) list" where
  "example_logMessage =
     [(''jsonrpc'', JString ''2.0''),
      (''method'', JString ''window/logMessage''),
      (''params'', JObject [(''type'', JNumber 3), (''message'', JString ''starting'')])]"

definition example_initializeResult :: "(string \<times> json) list" where
  "example_initializeResult =
     [(''jsonrpc'', JString ''2.0''),
      (''id'', JNumber 1),
      (''result'', JObject [(''capabilities'', JObject [(''referencesProvider'', JBool True)])])]"

definition example_wire :: wire where
  "example_wire =
     \<lparr>json_Marshal = (\<lambda>j. Some (render j)),
      json_Unmarshal = (\<lambda>s.
         if s = render (JObject example_logMessage) then Some example_logMessage
         else if s = render (JObject example_initializeResult) then Some example_initializeResult
         else None)\<rparr>"

definition frame :: "string \<Rightarrow> string" where
  "frame data =
     ''Content-Length: '' @ decimal (length data) @ [CHR 0x0D, CHR 0x0A, CHR 0x0D, CHR 0x0A] @ data"

text \<open>A client just started, the server having written the notification and then the answer.\<close>

definition example_client :: GoplsClient where
  "example_client =
     \<lparr>reader = frame (render (JObject example_logMessage))
               @ frame (render (JObject example_initializeResult)),
      writer = [], stdin_broken = False, seq = 0\<rparr>"

definition example_token_File :: token_File where
  "example_token_File =
     \<lparr>tf_name = ''/w/proj/p.go'', tf_base = 1, tf_size = 161, tf_lines = example_lines\<rparr>"

section \<open>The example, evaluated\<close>

lemma example_ParseFile:
  "ParseFile example_world NewASTProcessor ''/w/proj/p.go'' =
     (None, snd (ParseFile example_world NewASTProcessor ''/w/proj/p.go''))"
proof -
  have "fst (ParseFile example_world NewASTProcessor ''/w/proj/p.go'') = None"
    by code_simp
  then show ?thesis by (simp add: prod_eq_iff)
qed

lemma example_fileMap:
  "fileMap (snd (ParseFile example_world NewASTProcessor ''/w/proj/p.go'')) ''/w/proj/p.go''
     = Some (example_File 1)"
  by code_simp

lemma example_fset_File:
  "fset_File (fset_files (snd (ParseFile example_world NewASTProcessor ''/w/proj/p.go'')))
     (File_Package (example_File 1)) = Some example_token_File"
  by code_simp

lemma example_ReadFile: "os_ReadFile example_world ''/w/proj/p.go'' = Some example_src"
  by code_simp

section \<open>The cache of parsed files\<close>

lemma ParseFile_success_cached:
  assumes "ParseFile w a filePath = (None, a1)"
  shows "fileMap a1 filePath \<noteq> None"
  using assms
  by (auto simp: ParseFile_def Let_def split: option.splits prod.splits sum.splits)

lemma ParseFile_failure_uncached:
  assumes "ParseFile w a filePath = (Some err, a1)"
  shows "fileMap a filePath = None" and "fileMap a1 = fileMap a"
  using assms
  by (auto simp: ParseFile_def Let_def split: option.splits prod.splits sum.splits)

text \<open>
  Claim C8. When \<open>ParseFile\<close> has succeeded on a path, calling it again on that path
  succeeds and leaves the processor as it is: the cache entry, and the file set, which a
  second parse would have extended. The second call does not look at the file system or
  the parser: the statement holds for any world \<open>w'\<close> in which it runs.
\<close>

theorem ParseFile_twice:
  assumes "ParseFile w a filePath = (None, a1)"
  shows "ParseFile w' a1 filePath = (None, a1) \<and> fileMap a1 filePath \<noteq> None"
proof -
  from assms obtain astf where "fileMap a1 filePath = Some astf"
    using ParseFile_success_cached by blast
  then show ?thesis
    by (simp add: ParseFile_def)
qed

theorem ParseFile_twice_witness:
  "ParseFile example_world_later
     (snd (ParseFile example_world NewASTProcessor ''/w/proj/p.go'')) ''/w/proj/p.go''
     = (None, snd (ParseFile example_world NewASTProcessor ''/w/proj/p.go''))
   \<and> fileMap (snd (ParseFile example_world NewASTProcessor ''/w/proj/p.go'')) ''/w/proj/p.go''
       \<noteq> None"
  using ParseFile_twice [OF example_ParseFile, of example_world_later] .

text \<open>
  Claim C9. When \<open>ParseFile\<close> fails, the cache is as it was and has no entry for the
  path, so the next call on that path reads and parses again: in a world \<open>w'\<close> where
  the file cannot be read it fails with the read error, where the file does not parse it
  fails with the parse error and again caches nothing, and where the file parses it
  succeeds and caches the tree.
\<close>

theorem ParseFile_failure_not_cached:
  assumes "ParseFile w a filePath = (Some err, a1)"
  shows "fileMap a1 = fileMap a \<and> fileMap a1 filePath = None
    \<and> (os_ReadFile w' filePath = None \<longrightarrow>
          ParseFile w' a1 filePath = (Some (ErrReadingFile filePath), a1))
    \<and> (\<forall>src msg. os_ReadFile w' filePath = Some src
          \<and> snd (parser_ParseFile w' filePath src (fset_base a1)) = Inl msg \<longrightarrow>
          fst (ParseFile w' a1 filePath) = Some (ErrParsingFile filePath)
          \<and> fileMap (snd (ParseFile w' a1 filePath)) = fileMap a)
    \<and> (\<forall>src astf. os_ReadFile w' filePath = Some src
          \<and> snd (parser_ParseFile w' filePath src (fset_base a1)) = Inr astf \<longrightarrow>
          fst (ParseFile w' a1 filePath) = None
          \<and> fileMap (snd (ParseFile w' a1 filePath)) = (fileMap a)(filePath \<mapsto> astf))"
proof -
  have same: "fileMap a1 = fileMap a" and none: "fileMap a1 filePath = None"
    using ParseFile_failure_uncached[OF assms] by simp_all
  show ?thesis
    using same none
    by (auto simp: ParseFile_def Let_def split: prod.splits)
qed

theorem ParseFile_failure_not_cached_witness:
  "fileMap (snd (ParseFile example_world NewASTProcessor ''/w/proj/new.go'')) ''/w/proj/new.go''
     = None
   \<and> fst (ParseFile example_world_later
            (snd (ParseFile example_world NewASTProcessor ''/w/proj/new.go''))
            ''/w/proj/new.go'') = None"
proof -
  let ?a1 = "snd (ParseFile example_world NewASTProcessor ''/w/proj/new.go'')"
  have "fst (ParseFile example_world NewASTProcessor ''/w/proj/new.go'')
          = Some (ErrReadingFile ''/w/proj/new.go'')"
    by code_simp
  then have failed: "ParseFile example_world NewASTProcessor ''/w/proj/new.go''
          = (Some (ErrReadingFile ''/w/proj/new.go''), ?a1)"
    by (simp add: prod_eq_iff)
  have r: "os_ReadFile example_world_later ''/w/proj/new.go'' = Some example_src"
    by code_simp
  have p: "snd (parser_ParseFile example_world_later ''/w/proj/new.go'' example_src
             (fset_base ?a1)) = Inr (example_File 1)"
    by code_simp
  from ParseFile_failure_not_cached [OF failed, of example_world_later] r p
  show ?thesis by blast
qed

section \<open>Positions\<close>

lemma getPosition_bad_line:
  assumes "fileMap a1 filePath = Some astf"
    and "fset_File (fset_files a1) (File_Package astf) = Some tf"
    and "sint line < 1 \<or> LineCount tf < sint line"
  shows "getPosition a1 filePath line character = Inr NoPos"
  using assms by (auto simp: getPosition_def word_sless_alt)

lemma getPosition_good_line:
  assumes "fileMap a1 filePath = Some astf"
    and "fset_File (fset_files a1) (File_Package astf) = Some tf"
    and "1 \<le> sint line" and "sint line \<le> LineCount tf"
  shows "getPosition a1 filePath line character = Inr (LineStart tf line + (character - 1))"
  using assms by (auto simp: getPosition_def word_sless_alt)

text \<open>
  Claim C7. For a file that has been parsed and can still be read (files do not change
  during a run), a query whose line is 0, negative or greater than the number of lines
  of the file returns the error "invalid position", from \<open>GetEnclosingFunctionName\<close>
  and from \<open>ExtractFullCall\<close> alike: it is a returned error, no panic and no result.
\<close>

theorem line_out_of_range_is_position_error:
  assumes "ParseFile w a filePath = (None, a1)"
    and "fileMap a1 filePath = Some astf"
    and "fset_File (fset_files a1) (File_Package astf) = Some tf"
    and "sint line < 1 \<or> LineCount tf < sint line"
    and "os_ReadFile w filePath = Some src"
  shows "GetEnclosingFunctionName w a filePath line character = (Inl ErrInvalidPosition, a1)
    \<and> ExtractFullCall w a filePath line character = (Inl ErrInvalidPosition, a1)"
  using assms getPosition_bad_line[OF assms(2,3,4), of character]
  by (simp add: GetEnclosingFunctionName_def ExtractFullCall_def)

theorem line_out_of_range_is_position_error_witness:
  "GetEnclosingFunctionName example_world NewASTProcessor ''/w/proj/p.go'' 13 1 =
     (Inl ErrInvalidPosition, snd (ParseFile example_world NewASTProcessor ''/w/proj/p.go''))
   \<and> ExtractFullCall example_world NewASTProcessor ''/w/proj/p.go'' 13 1 =
     (Inl ErrInvalidPosition, snd (ParseFile example_world NewASTProcessor ''/w/proj/p.go''))"
proof -
  have "sint (13 :: go_int) < 1 \<or> LineCount example_token_File < sint (13 :: go_int)"
    by (simp add: LineCount_def example_token_File_def example_lines_def)
  from line_out_of_range_is_position_error
    [OF example_ParseFile example_fileMap example_fset_File this example_ReadFile]
  show ?thesis .
qed

text \<open>
  Claim C10, as amended. For a parsed, readable file and a line within its line range,
  the queried position is the file's base plus the line's offset plus (column - 1), in
  64-bit arithmetic, for every column: 0, negative, beyond the end of the line (the
  position is then on a following line). The column is never compared with the line's
  length. A position error is returned exactly when that sum is the zero position
  \<open>NoPos\<close>, which one column of each line gives.
\<close>

theorem column_checked_only_against_NoPos:
  assumes "ParseFile w a filePath = (None, a1)"
    and "fileMap a1 filePath = Some astf"
    and "fset_File (fset_files a1) (File_Package astf) = Some tf"
    and "1 \<le> sint line" and "sint line \<le> LineCount tf"
    and "os_ReadFile w filePath = Some src"
  shows "getPosition a1 filePath line character =
           Inr (tf_base tf + tf_lines tf ! nat (sint line - 1) + (character - 1))
    \<and> (fst (GetEnclosingFunctionName w a filePath line character) = Inl ErrInvalidPosition
         \<longleftrightarrow> tf_base tf + tf_lines tf ! nat (sint line - 1) + (character - 1) = NoPos)
    \<and> (fst (ExtractFullCall w a filePath line character) = Inl ErrInvalidPosition
         \<longleftrightarrow> tf_base tf + tf_lines tf ! nat (sint line - 1) + (character - 1) = NoPos)"
proof -
  let ?p = "tf_base tf + tf_lines tf ! nat (sint line - 1) + (character - 1)"
  have gp: "getPosition a1 filePath line character = Inr ?p"
    using getPosition_good_line[OF assms(2,3,4,5)] by (simp add: LineStart_def)
  have ge: "fst (GetEnclosingFunctionName w a filePath line character) = Inl ErrInvalidPosition
         \<longleftrightarrow> ?p = NoPos"
    using assms(1,2) gp by (simp add: GetEnclosingFunctionName_def Let_def)
  have ex: "fst (ExtractFullCall w a filePath line character) = Inl ErrInvalidPosition
         \<longleftrightarrow> ?p = NoPos"
    using assms(1,2,6) gp
    by (auto simp: ExtractFullCall_def Let_def split: option.splits)
  from gp ge ex show ?thesis by blast
qed

theorem column_checked_only_against_NoPos_witness:
  "getPosition (snd (ParseFile example_world NewASTProcessor ''/w/proj/p.go''))
     ''/w/proj/p.go'' 6 60 = Inr 110
   \<and> fst (GetEnclosingFunctionName example_world NewASTProcessor ''/w/proj/p.go'' 6 60)
       \<noteq> Inl ErrInvalidPosition
   \<and> fst (ExtractFullCall example_world NewASTProcessor ''/w/proj/p.go'' 6 60)
       \<noteq> Inl ErrInvalidPosition"
proof -
  have l1: "1 \<le> sint (6 :: go_int)" by simp
  have l2: "sint (6 :: go_int) \<le> LineCount example_token_File"
    by (simp add: LineCount_def example_token_File_def example_lines_def)
  have v: "tf_base example_token_File
             + tf_lines example_token_File ! nat (sint (6 :: go_int) - 1) + (60 - 1) = 110"
    by (simp add: example_token_File_def example_lines_def)
  have n: "(110 :: go_int) \<noteq> NoPos" by (simp add: NoPos_def)
  from column_checked_only_against_NoPos
    [OF example_ParseFile example_fileMap example_fset_File l1 l2 example_ReadFile, of 60]
  show ?thesis unfolding v using n by simp
qed

text \<open>
  The claim as first stated fails: in the first file a fresh processor parses, whose
  base is 1, line 1 is within the range and column 0 is refused.
\<close>

theorem column_zero_refused_counterexample:
  "1 \<le> sint (1 :: go_int) \<and> sint (1 :: go_int) \<le> LineCount example_token_File
   \<and> fset_File (fset_files (snd (ParseFile example_world NewASTProcessor ''/w/proj/p.go'')))
       (File_Package (example_File 1)) = Some example_token_File
   \<and> fst (GetEnclosingFunctionName example_world NewASTProcessor ''/w/proj/p.go'' 1 0)
       = Inl ErrInvalidPosition
   \<and> fst (ExtractFullCall example_world NewASTProcessor ''/w/proj/p.go'' 1 0)
       = Inl ErrInvalidPosition"
  by code_simp

section \<open>The enclosing function\<close>










section \<open>The call expression at a position\<close>








section \<open>Definitions that match a pattern\<close>

lemma scan_Decls_ok:
  "\<forall>m \<in> set matches. match_ok w pats m \<Longrightarrow>
     \<forall>m \<in> set (scan_Decls w fs pkgPath pats decls matches). match_ok w pats m"
proof (induction decls arbitrary: matches)
  case Nil
  then show ?case by simp
next
  case (Cons d ds)
  show ?case
  proof (cases "node_kind d")
    case (FuncDecl funcName namePos recv)
    show ?thesis
    proof (cases "ast_IsExported w funcName \<and> isFuncMatch w funcName recv pats")
      case True
      let ?m = "\<lparr>Pkg = pkgPath, RecvType = fst (extractRecvType recv),
                 RecvName = snd (extractRecvType recv), FuncName = funcName,
                 Filename = Position_Filename fs namePos,
                 OffsetLine = Position_Line fs namePos,
                 OffsetCol = Position_Column fs namePos\<rparr>"
      from True have "match_ok w pats ?m"
        by (simp add: match_ok_def isFuncMatch_def)
      with Cons.prems have "\<forall>m \<in> set (matches @ [?m]). match_ok w pats m" by simp
      from Cons.IH[OF this] True FuncDecl show ?thesis by simp
    next
      case False
      with Cons FuncDecl show ?thesis by auto
    qed
  qed (use Cons in simp_all)
qed

lemma scan_GoFiles_ok:
  "\<forall>m \<in> set matches. match_ok w pats m \<Longrightarrow>
     scan_GoFiles w a pkgPath dir pats files matches = (Inr out, a1) \<Longrightarrow>
     \<forall>m \<in> set out. match_ok w pats m"
proof (induction files arbitrary: a matches)
  case Nil
  then show ?case by simp
next
  case (Cons f fs)
  from Cons.prems(2) obtain a2 astf where
    p: "ParseFile w a (filepath_Join dir f) = (None, a2)"
    and c: "fileMap a2 (filepath_Join dir f) = Some astf"
    and r: "scan_GoFiles w a2 pkgPath dir pats fs
              (scan_Decls w (fset_files a2) pkgPath pats (File_Decls astf) matches) = (Inr out, a1)"
    by (auto split: prod.splits option.splits)
  from scan_Decls_ok[OF Cons.prems(1)] Cons.IH r show ?case by blast
qed

lemma isFuncMatch_loop_single_qualified:
  assumes "strings_Cut pattern (CHR ''.'') = (structName, methodName, True)"
  shows "isFuncMatch_loop w recvType funcName [pattern] =
           (glob_Glob w structName recvType \<and> glob_Glob w methodName funcName)"
  using assms by simp

text \<open>
  Claim C2, as amended. For a pattern with a dot, \<open>structName.methodName\<close>, the result
  of \<open>FindFuncDefinitions\<close> holds no declaration without a receiver (a match whose
  receiver type is empty) of a given name, unless the receiver glob matches the empty
  string and the method glob matches the name. This holds for any glob function.
\<close>

theorem FindFuncDefinitions_no_receiver:
  assumes "FindFuncDefinitions w a pkgPath [pattern] = (Inr matches, a1)"
    and "strings_Cut pattern (CHR ''.'') = (structName, methodName, True)"
    and "\<not> (glob_Glob w structName [] \<and> glob_Glob w methodName funcName)"
  shows "\<not> (\<exists>m \<in> set matches. FuncName m = funcName \<and> RecvType m = [])"
proof
  assume "\<exists>m \<in> set matches. FuncName m = funcName \<and> RecvType m = []"
  then obtain m where m: "m \<in> set matches" "FuncName m = funcName" "RecvType m = []"
    by blast
  from assms(1) obtain dir goFiles where
    "scan_GoFiles w a pkgPath dir [pattern] goFiles [] = (Inr matches, a1)"
    by (auto simp: FindFuncDefinitions_def split: sum.splits prod.splits)
  then have "\<forall>m \<in> set matches. match_ok w [pattern] m"
    using scan_GoFiles_ok[of "[]"] by simp
  with m(1) have "match_ok w [pattern] m" by blast
  moreover have "strings_TrimPrefix [] ''*'' = []"
    by (simp add: strings_TrimPrefix_def strings_HasPrefix_def)
  ultimately have "isFuncMatch_loop w [] funcName [pattern]"
    using m(2,3) by (simp only: match_ok_def)
  with assms(3) show False
    by (simp only: isFuncMatch_loop_single_qualified[OF assms(2)])
qed

theorem FindFuncDefinitions_no_receiver_witness:
  "\<not> (\<exists>m \<in> set [\<lparr>Pkg = ''example.com/p'', RecvType = ''*Srv'', RecvName = ''s'',
                     FuncName = ''Run'', Filename = ''/w/proj/p.go'',
                     OffsetLine = 10, OffsetCol = 15\<rparr>].
        FuncName m = ''Foo'' \<and> RecvType m = [])"
proof -
  let ?ms = "[\<lparr>Pkg = ''example.com/p'', RecvType = ''*Srv'', RecvName = ''s'',
               FuncName = ''Run'', Filename = ''/w/proj/p.go'',
               OffsetLine = 10, OffsetCol = 15\<rparr>]"
  have "fst (FindFuncDefinitions example_world NewASTProcessor ''example.com/p'' [''*Srv.*''])
          = Inr ?ms"
    by code_simp
  then have f: "FindFuncDefinitions example_world NewASTProcessor ''example.com/p'' [''*Srv.*'']
          = (Inr ?ms, snd (FindFuncDefinitions example_world NewASTProcessor
                              ''example.com/p'' [''*Srv.*'']))"
    by (simp add: prod_eq_iff)
  have c: "strings_Cut ''*Srv.*'' (CHR ''.'') = (''*Srv'', ''*'', True)" by code_simp
  have g: "\<not> (glob_Glob example_world ''*Srv'' [] \<and> glob_Glob example_world ''*'' ''Foo'')"
    by code_simp
  from FindFuncDefinitions_no_receiver [OF f c g] show ?thesis .
qed

text \<open>
  The claim as first stated fails: \<open>Bar\<close> of the example is exported and has no
  receiver, and the pattern \<open>*.Bar\<close> finds it.
\<close>

theorem FindFuncDefinitions_star_receiver_counterexample:
  "strings_Cut ''*.Bar'' (CHR ''.'') = (''*'', ''Bar'', True)
   \<and> node_kind (hd (File_Decls (example_lib_File 1))) = FuncDecl ''Bar'' 19 None
   \<and> fst (FindFuncDefinitions example_world NewASTProcessor ''example.com/lib'' [''*.Bar''])
       = Inr [\<lparr>Pkg = ''example.com/lib'', RecvType = [], RecvName = [],
                FuncName = ''Bar'', Filename = ''/go/mod/lib/lib.go'',
                OffsetLine = 3, OffsetCol = 6\<rparr>]"
  by code_simp

section \<open>The order of the results\<close>

lemma strings_Compare_less: "strings_Compare a b < 0 \<longleftrightarrow> a < b"
  by (induction a b rule: strings_Compare.induct) auto

lemma strings_Compare_eq: "strings_Compare a b = 0 \<longleftrightarrow> a = b"
  by (induction a b rule: strings_Compare.induct) auto

lemma sort_cmp_less: "sort_cmp a b < 0 \<longleftrightarrow> \<not> entry_le b a"
  using strings_Compare_less[of "me_Filename a" "me_Filename b"]
    strings_Compare_eq[of "me_Filename a" "me_Filename b"]
  by (auto simp: sort_cmp_def entry_le_def cmp_Compare_def Let_def word_sless_alt word_sle_eq)

lemma entry_le_total: "entry_le a b \<or> entry_le b a"
  by (auto simp: entry_le_def word_sle_eq)

lemma entry_le_trans: "entry_le a b \<Longrightarrow> entry_le b c \<Longrightarrow> entry_le a c"
  by (auto simp: entry_le_def word_sle_eq)

lemma entry_le_same_key:
  "me_Filename a = me_Filename b \<Longrightarrow> me_Line a = me_Line b \<Longrightarrow> entry_le a b"
  by (simp add: entry_le_def)

lemma mset_insert_back: "mset (insert_back cmp x r) = add_mset x (mset r)"
  by (induction r) auto

lemma set_insert_back: "set (insert_back cmp x r) = insert x (set r)"
  by (induction r) auto

lemma descending_insert_back:
  "sorted_wrt (\<lambda>a b. entry_le b a) r \<Longrightarrow>
     sorted_wrt (\<lambda>a b. entry_le b a) (insert_back sort_cmp x r)"
proof (induction r)
  case Nil
  then show ?case by simp
next
  case (Cons y r)
  show ?case
  proof (cases "sort_cmp x y < 0")
    case True
    then have "entry_le x y"
      using sort_cmp_less entry_le_total by blast
    with Cons True show ?thesis
      by (auto simp: set_insert_back)
  next
    case False
    then have yx: "entry_le y x" by (simp add: sort_cmp_less)
    with Cons.prems have "\<forall>z \<in> set (y # r). entry_le z x"
      using entry_le_trans by auto
    with Cons.prems False show ?thesis by simp
  qed
qed

lemma filter_insert_back:
  "filter (same_key f l) (insert_back sort_cmp x r) =
     (if same_key f l x then x # filter (same_key f l) r else filter (same_key f l) r)"
proof (induction r)
  case Nil
  then show ?case by simp
next
  case (Cons y r)
  have "\<not> (same_key f l x \<and> same_key f l y)" if "sort_cmp x y < 0"
    using that entry_le_same_key[of y x] by (auto simp: sort_cmp_less same_key_def)
  with Cons show ?case by auto
qed

lemma sorted_rev_snoc: "sorted_rev (xs @ [x]) = insert_back sort_cmp x (sorted_rev xs)"
  by (simp add: sorted_rev_def)

lemma sorted_rev_descending: "sorted_wrt (\<lambda>a b. entry_le b a) (sorted_rev xs)"
proof (induction xs rule: rev_induct)
  case Nil
  then show ?case by (simp add: sorted_rev_def)
next
  case (snoc x xs)
  then show ?case by (simp add: sorted_rev_snoc descending_insert_back)
qed

lemma sorted_rev_filter: "filter (same_key f l) (sorted_rev xs) = rev (filter (same_key f l) xs)"
proof (induction xs rule: rev_induct)
  case Nil
  then show ?case by (simp add: sorted_rev_def)
next
  case (snoc x xs)
  then show ?case by (simp add: sorted_rev_snoc filter_insert_back)
qed

lemma sorted_rev_mset: "mset (sorted_rev xs) = mset xs"
proof (induction xs rule: rev_induct)
  case Nil
  then show ?case by (simp add: sorted_rev_def)
next
  case (snoc x xs)
  then show ?case by (simp add: sorted_rev_snoc mset_insert_back)
qed

lemma sorted_rev_of_sorted: "sorted_wrt entry_le xs \<Longrightarrow> sorted_rev xs = rev xs"
proof (induction xs rule: rev_induct)
  case Nil
  then show ?case by (simp add: sorted_rev_def)
next
  case (snoc x xs)
  then have IH: "sorted_rev xs = rev xs" and le: "\<forall>y \<in> set xs. entry_le y x"
    by (auto simp: sorted_wrt_append)
  show ?case
  proof (cases "rev xs")
    case Nil
    then show ?thesis by (simp add: sorted_rev_def)
  next
    case (Cons y r)
    then have "y \<in> set xs"
      by (metis list.set_intros(1) set_rev)
    with le have "\<not> sort_cmp x y < 0" by (simp add: sort_cmp_less)
    then have "insert_back sort_cmp x (y # r) = x # y # r" by simp
    with IH Cons show ?thesis
      by (simp only: sorted_rev_snoc rev_append rev.simps append.simps)
  qed
qed

lemma SortStableFunc_sorted: "sorted_wrt entry_le (SortStableFunc sort_cmp xs)"
  using sorted_rev_descending[of xs]
  by (simp add: SortStableFunc_def sorted_rev_def[symmetric] sorted_wrt_rev)

lemma entry_le_key: "entry_le a b \<longleftrightarrow> sort_key_of a \<le> sort_key_of b"
  by (auto simp: entry_le_def sort_key_of_def less_eq_prod_def word_sle_eq)

lemma same_key_of: "(sort_key_of k = sort_key_of x) = same_key (me_Filename k) (me_Line k) x"
  by (auto simp: sort_key_of_def same_key_def word_eq_iff_signed[where 'a = int])

text \<open>The model of \<open>slices.SortStableFunc\<close> returns what any stable sort by file and line returns.\<close>

lemma SortStableFunc_is_sort_key:
  "SortStableFunc sort_cmp xs = sort_key sort_key_of xs"
proof -
  let ?ys = "SortStableFunc sort_cmp xs"
  have ys: "?ys = rev (sorted_rev xs)"
    by (simp add: SortStableFunc_def sorted_rev_def)
  have 1: "mset ?ys = mset xs"
    by (simp add: ys sorted_rev_mset)
  have 2: "filter (\<lambda>x. sort_key_of k = sort_key_of x) ?ys
             = filter (\<lambda>x. sort_key_of k = sort_key_of x) xs" for k
    by (simp add: same_key_of ys rev_filter[symmetric] sorted_rev_filter)
  have "entry_le = (\<lambda>a b. sort_key_of a \<le> sort_key_of b)"
    by (simp add: fun_eq_iff entry_le_key)
  then have 3: "sorted (map sort_key_of ?ys)"
    using SortStableFunc_sorted[of xs] by (simp add: sorted_map)
  show ?thesis
    using properties_for_sort_key[OF 1 2 3] by simp
qed

text \<open>
  Claim C6. \<open>sort\<close> leaves the entries ordered by file path (lexicographic) and then by
  line; it only rearranges them; entries with the same file and line keep their order
  of discovery; sorting twice gives what sorting once gives; and the entries found as
  (b.go, 1), (a.go, 5), (a.go, 2) come out as (a.go, 2), (a.go, 5), (b.go, 1).
\<close>

theorem sort_stable_by_file_then_line:
  "sorted_wrt entry_le (refs (Matcher_sort m))
   \<and> mset (refs (Matcher_sort m)) = mset (refs m)
   \<and> (\<forall>f l. filter (same_key f l) (refs (Matcher_sort m)) = filter (same_key f l) (refs m))
   \<and> Matcher_sort (Matcher_sort m) = Matcher_sort m
   \<and> map (\<lambda>e. (me_Filename e, me_Line e))
       (refs (Matcher_sort \<lparr>refs =
          [\<lparr>me_Filename = ''b.go'', me_Line = 1, EncRecvType = [], EncRecvName = [],
             EncFuncName = ''F'', OrgSource = ''X()'', PrettySource = ''X()''\<rparr>,
           \<lparr>me_Filename = ''a.go'', me_Line = 5, EncRecvType = [], EncRecvName = [],
             EncFuncName = ''F'', OrgSource = ''X()'', PrettySource = ''X()''\<rparr>,
           \<lparr>me_Filename = ''a.go'', me_Line = 2, EncRecvType = [], EncRecvName = [],
             EncFuncName = ''F'', OrgSource = ''X()'', PrettySource = ''X()''\<rparr>],
          pls_calls = 0\<rparr>))
     = [(''a.go'', 2), (''a.go'', 5), (''b.go'', 1)]"
proof -
  have s: "refs (Matcher_sort m) = rev (sorted_rev (refs m))" for m
    by (simp add: Matcher_sort_def SortStableFunc_def sorted_rev_def)
  have 1: "sorted_wrt entry_le (refs (Matcher_sort m))"
    by (simp add: Matcher_sort_def SortStableFunc_sorted)
  have 2: "mset (refs (Matcher_sort m)) = mset (refs m)"
    by (simp add: s sorted_rev_mset)
  have 3: "filter (same_key f l) (refs (Matcher_sort m)) = filter (same_key f l) (refs m)" for f l
    by (simp add: s rev_filter[symmetric] sorted_rev_filter)
  have "sorted_rev (refs (Matcher_sort m)) = rev (refs (Matcher_sort m))"
    using sorted_rev_of_sorted[OF 1] .
  then have 4: "Matcher_sort (Matcher_sort m) = Matcher_sort m"
    by (simp add: Matcher_sort_def SortStableFunc_def sorted_rev_def)
  have 5: "map (\<lambda>e. (me_Filename e, me_Line e))
       (refs (Matcher_sort \<lparr>refs =
          [\<lparr>me_Filename = ''b.go'', me_Line = 1, EncRecvType = [], EncRecvName = [],
             EncFuncName = ''F'', OrgSource = ''X()'', PrettySource = ''X()''\<rparr>,
           \<lparr>me_Filename = ''a.go'', me_Line = 5, EncRecvType = [], EncRecvName = [],
             EncFuncName = ''F'', OrgSource = ''X()'', PrettySource = ''X()''\<rparr>,
           \<lparr>me_Filename = ''a.go'', me_Line = 2, EncRecvType = [], EncRecvName = [],
             EncFuncName = ''F'', OrgSource = ''X()'', PrettySource = ''X()''\<rparr>],
          pls_calls = 0\<rparr>))
     = [(''a.go'', 2), (''a.go'', 5), (''b.go'', 1)]"
    by code_simp
  from 1 2 3 4 5 show ?thesis by blast
qed

theorem sort_stable_by_file_then_line_witness:
  "Matcher_sort (Matcher_sort \<lparr>refs = [], pls_calls = 0\<rparr>)
     = Matcher_sort \<lparr>refs = [], pls_calls = 0\<rparr>
   \<and> sorted_wrt entry_le (refs (Matcher_sort \<lparr>refs = [], pls_calls = 0\<rparr>))"
  using sort_stable_by_file_then_line [of "\<lparr>refs = [], pls_calls = 0\<rparr>"] by blast

section \<open>References outside the workspace\<close>

lemma refs_loop_prefix:
  "refs_loop w pwd ap matches rs = (r, ap1, rs1) \<Longrightarrow>
     \<exists>new. rs1 = rs @ new \<and> (\<forall>e \<in> set new. strings_HasPrefix (me_Filename e) pwd)"
proof (induction matches arbitrary: ap rs)
  case Nil
  then show ?case by simp
next
  case (Cons mt mts)
  show ?case
  proof (cases "strings_HasPrefix (gm_Filename mt) pwd")
    case False
    with Cons.prems have "refs_loop w pwd ap mts rs = (r, ap1, rs1)" by simp
    from Cons.IH[OF this] show ?thesis by auto
  next
    case True
    obtain g ap2 where ge: "GetEnclosingFunctionName w ap (gm_Filename mt) (gm_StartLine mt)
        (gm_StartCharacter mt) = (g, ap2)"
      by (cases "GetEnclosingFunctionName w ap (gm_Filename mt) (gm_StartLine mt)
                   (gm_StartCharacter mt)") auto
    show ?thesis
    proof (cases g)
      case (Inl err)
      with Cons.prems True ge show ?thesis by simp
    next
      case (Inr names)
      obtain fn rt rn where names: "names = (fn, rt, rn)" by (cases names) auto
      obtain x ap3 where ex: "ExtractFullCall w ap2 (gm_Filename mt) (gm_StartLine mt)
          (gm_StartCharacter mt) = (x, ap3)"
        by (cases "ExtractFullCall w ap2 (gm_Filename mt) (gm_StartLine mt)
                     (gm_StartCharacter mt)") auto
      show ?thesis
      proof (cases x)
        case (Inl err)
        with Cons.prems True ge Inr names ex show ?thesis by simp
      next
        case (Inr src)
        let ?e = "\<lparr>me_Filename = gm_Filename mt, me_Line = gm_StartLine mt,
                    EncRecvType = rt, EncRecvName = rn, EncFuncName = fn,
                    OrgSource = src, PrettySource = format_source w src\<rparr>"
        from Cons.prems True ge \<open>g = Inr names\<close> names ex Inr
        have "refs_loop w pwd ap3 mts (rs @ [?e]) = (r, ap1, rs1)" by simp
        from Cons.IH[OF this] obtain new where
          new: "rs1 = (rs @ [?e]) @ new"
            "\<forall>e \<in> set new. strings_HasPrefix (me_Filename e) pwd"
          by blast
        have "rs1 = rs @ (?e # new)" using new(1) by simp
        moreover have "\<forall>e \<in> set (?e # new). strings_HasPrefix (me_Filename e) pwd"
          using new(2) True by auto
        ultimately show ?thesis by blast
      qed
    qed
  qed
qed

lemma defs_loop_prefix:
  "defs_loop w pwd ap defs m = (r, m1) \<Longrightarrow>
     \<exists>new. refs m1 = refs m @ new \<and> (\<forall>e \<in> set new. strings_HasPrefix (me_Filename e) pwd)"
proof (induction defs arbitrary: ap m)
  case Nil
  then show ?case by simp
next
  case (Cons d ds)
  show ?case
  proof (cases "pls_FindReferences w (pls_calls m) (Filename d) (OffsetLine d) (OffsetCol d)")
    case (Inl err)
    with Cons.prems show ?thesis by auto
  next
    case (Inr matches)
    obtain r2 ap2 rs2 where rl: "refs_loop w pwd ap matches (refs m) = (r2, ap2, rs2)"
      by (cases "refs_loop w pwd ap matches (refs m)") auto
    from refs_loop_prefix[OF rl] obtain new1 where
      n1: "rs2 = refs m @ new1" "\<forall>e \<in> set new1. strings_HasPrefix (me_Filename e) pwd"
      by blast
    show ?thesis
    proof (cases r2)
      case (Some err)
      with Cons.prems Inr rl have "refs m1 = rs2" by auto
      with n1 show ?thesis by blast
    next
      case None
      with Cons.prems Inr rl
      have "defs_loop w pwd ap2 ds (m\<lparr>refs := rs2, pls_calls := Suc (pls_calls m)\<rparr>) = (r, m1)"
        by simp
      from Cons.IH[OF this] obtain new2 where
        n2: "refs m1 = rs2 @ new2" "\<forall>e \<in> set new2. strings_HasPrefix (me_Filename e) pwd"
        by auto
      from n1 n2 have "refs m1 = refs m @ (new1 @ new2)"
        "\<forall>e \<in> set (new1 @ new2). strings_HasPrefix (me_Filename e) pwd"
        by auto
      then show ?thesis by blast
    qed
  qed
qed

text \<open>
  What the filter does ensure. Whatever the client returns, and whether the search ends
  well or with an error, \<open>FindFuncReferences\<close> only appends to the result set, and
  every entry it appends is in a file whose path begins with the absolute path of the
  working directory, as a string.
\<close>

lemma FindFuncReferences_keeps_prefixed_only:
  "\<exists>new. refs (snd (FindFuncReferences w m pkgName patterns)) = refs m @ new
     \<and> (\<forall>e \<in> set new. strings_HasPrefix (me_Filename e) (filepath_Abs_dot w))"
proof (cases "FindFuncDefinitions w NewASTProcessor pkgName patterns")
  case (Pair d ap1)
  show ?thesis
  proof (cases d)
    case (Inl err)
    with Pair show ?thesis by (simp add: FindFuncReferences_def)
  next
    case (Inr defs)
    obtain r m1 where dl: "defs_loop w (filepath_Abs_dot w) ap1 defs m = (r, m1)"
      by (cases "defs_loop w (filepath_Abs_dot w) ap1 defs m") auto
    from Pair Inr dl have "snd (FindFuncReferences w m pkgName patterns) = m1"
      by (simp add: FindFuncReferences_def)
    with defs_loop_prefix[OF dl] show ?thesis by simp
  qed
qed

text \<open>
  Claim C5 does not hold of \<open>FindFuncReferences\<close>: a reference in a file outside the
  workspace root is added when the path of the file begins with the path of the root.
  In the example the root is \<open>/w/proj\<close>, the server reports a call in
  \<open>/w/proj-old/p.go\<close>, and the result set has an entry for it.
\<close>

theorem FindFuncReferences_adds_sibling_directory:
  "filepath_Abs_dot example_world = ''/w/proj''
   \<and> \<not> inside_dir ''/w/proj'' ''/w/proj-old/p.go''
   \<and> map me_Filename
        (refs (snd (FindFuncReferences example_world \<lparr>refs = [], pls_calls = 0\<rparr>
                      ''example.com/lib'' [''Bar''])))
       = [''/w/proj/p.go'', ''/w/proj-old/p.go'', ''/w/proj/p.go'']"
  by code_simp

section \<open>The initialize step\<close>

text \<open>
  Whatever message the one call of \<open>readMessage\<close> returns, \<open>initialize\<close> goes on to
  the notifications: the message does not occur in what it returns.
\<close>

lemma initialize_any_message:
  assumes "getSeq c = (requestID, c1)"
    and "sendMessage io c1 (initializeRequest requestID projectRoot) = (None, c2)"
    and "readMessage io c2 = (Inr resp, c3)"
  shows "initialize io c projectRoot =
    (case sendMessage io c3 initializedNotification of
       (Some err, c4) \<Rightarrow> (Some err, c4)
     | (None, c4) \<Rightarrow> sendMessage io c4 didChangeConfigNotification)"
  using assms by (simp add: initialize_def)

text \<open>
  Claim C3 does not hold of \<open>initialize\<close>. The server writes a \<open>window/logMessage\<close>
  notification, which has no id, and then the answer to the request of id 1; the client
  returns from \<open>initialize\<close> without error after it has read the notification only, and
  the answer is still unread.
\<close>

theorem initialize_accepts_notification:
  "fst (readMessage example_wire example_client) = Inr example_logMessage
   \<and> map_of example_logMessage ''id'' = None
   \<and> fst (initialize example_wire example_client ''/w/proj'') = None
   \<and> reader (snd (initialize example_wire example_client ''/w/proj''))
       = frame (render (JObject example_initializeResult))"
  by code_simp

end
